theory Spec2Isabelle
  imports Complex_Main
begin

section \<open>The data frame\<close>

text \<open>
  The notebook \<^verbatim>\<open>1.1-section\<close> reads a CSV file into the pandas data frame
  \<^verbatim>\<open>data1\<close>. Its four columns are \<^verbatim>\<open>buff\<close>, \<^verbatim>\<open>gene\<close>, \<^verbatim>\<open>NativeEnt\<close> and
  \<^verbatim>\<open>NonRefoldable\<close>; the notebook describes the last two as \<^verbatim>\<open>True\<close>/\<^verbatim>\<open>False\<close>.
  What an entry of such a column is depends on the file: a boolean when the column is
  written \<^verbatim>\<open>True\<close>/\<^verbatim>\<open>False\<close>, an integer or a float when it is coded in numbers
  (\<^verbatim>\<open>0\<close>/\<^verbatim>\<open>1\<close>), a string for any other text, and the missing value NaN for an
  empty field. A finite float is taken as the exact rational it stands for.
\<close>

datatype entry = B bool | IntV int | FloatV rat | StrV string | NA

record row =
  buff :: string
  gene :: string
  NativeEnt :: entry
  NonRefoldable :: entry

type_synonym dataframe = "row list"

section \<open>The pandas operations the notebook uses\<close>

text \<open>
  \<^verbatim>\<open>v == True\<close> and \<^verbatim>\<open>v == False\<close> on one entry, as Python compares: a boolean
  equals itself; a number equals \<^verbatim>\<open>True\<close> when it is 1 and \<^verbatim>\<open>False\<close> when it is
  0, whether integer or float; a string and NaN equal neither.
\<close>

fun eq_bool :: "entry \<Rightarrow> bool \<Rightarrow> bool" where
  "eq_bool (B x) y = (x = y)"
| "eq_bool (IntV n) y = (n = (if y then 1 else 0))"
| "eq_bool (FloatV q) y = (q = (if y then 1 else 0))"
| "eq_bool (StrV s) y = False"
| "eq_bool NA y = False"

text \<open>\<^verbatim>\<open>series == y\<close>: the comparison of every entry of a column, a boolean mask.\<close>

definition series_eq :: "entry list \<Rightarrow> bool \<Rightarrow> bool list" where
  "series_eq s y = map (\<lambda>v. eq_bool v y) s"

text \<open>\<^verbatim>\<open>mask1 & mask2\<close>: the conjunction of two masks, position by position.\<close>

definition series_and :: "bool list \<Rightarrow> bool list \<Rightarrow> bool list" where
  "series_and m1 m2 = map2 (\<and>) m1 m2"

text \<open>\<^verbatim>\<open>data1[mask]\<close>: the rows at which the mask is true, in their order.\<close>

definition select_rows :: "dataframe \<Rightarrow> bool list \<Rightarrow> dataframe" where
  "select_rows df m = map fst (filter snd (zip df m))"

text \<open>\<^verbatim>\<open>len\<close> returns a Python integer.\<close>

definition len :: "'a list \<Rightarrow> int" where
  "len xs = int (length xs)"

section \<open>Step 3: the four cells and the contingency table\<close>

text \<open>
  The predicate of a cell, \<^verbatim>\<open>(data1["NativeEnt"] == x) & (data1["NonRefoldable"] == y)\<close>,
  and the count \<^verbatim>\<open>len(data1[...])\<close> of the rows it selects.
\<close>

definition cell_mask :: "dataframe \<Rightarrow> bool \<Rightarrow> bool \<Rightarrow> bool list" where
  "cell_mask data1 x y =
     series_and (series_eq (map NativeEnt data1) x) (series_eq (map NonRefoldable data1) y)"

definition count_where :: "dataframe \<Rightarrow> bool \<Rightarrow> bool \<Rightarrow> int" where
  "count_where data1 x y = len (select_rows data1 (cell_mask data1 x y))"

text \<open>The notebook's variables \<^verbatim>\<open>a\<close>, \<^verbatim>\<open>b\<close>, \<^verbatim>\<open>c\<close>, \<^verbatim>\<open>d\<close>.\<close>

definition cell_a :: "dataframe \<Rightarrow> int" where
  "cell_a data1 = count_where data1 True True"

definition cell_b :: "dataframe \<Rightarrow> int" where
  "cell_b data1 = count_where data1 True False"

definition cell_c :: "dataframe \<Rightarrow> int" where
  "cell_c data1 = count_where data1 False True"

definition cell_d :: "dataframe \<Rightarrow> int" where
  "cell_d data1 = count_where data1 False False"

text \<open>
  The table is the data frame with the columns \<^verbatim>\<open>"Protein Misfolded": [a, c]\<close> and
  \<^verbatim>\<open>"Protein Not Misfolded": [b, d]\<close>; each column lists the row
  \<^verbatim>\<open>"Protein Entangled"\<close> first and \<^verbatim>\<open>"Protein Not Entangled"\<close> second.
\<close>

record contingency =
  Protein_Misfolded :: "int \<times> int"
  Protein_Not_Misfolded :: "int \<times> int"

definition make_table :: "int \<Rightarrow> int \<Rightarrow> int \<Rightarrow> int \<Rightarrow> contingency" where
  "make_table a b c d = \<lparr>Protein_Misfolded = (a, c), Protein_Not_Misfolded = (b, d)\<rparr>"

definition contingency_table :: "dataframe \<Rightarrow> contingency" where
  "contingency_table data1 =
     make_table (cell_a data1) (cell_b data1) (cell_c data1) (cell_d data1)"

text \<open>
  A consumer of the table reads it as a matrix, row by row: the first row is
  \<^verbatim>\<open>[a, b]\<close>, the second \<^verbatim>\<open>[c, d]\<close>.
\<close>

definition asarray :: "contingency \<Rightarrow> (int \<times> int) \<times> (int \<times> int)" where
  "asarray t =
     ((fst (Protein_Misfolded t), fst (Protein_Not_Misfolded t)),
      (snd (Protein_Misfolded t), snd (Protein_Not_Misfolded t)))"

section \<open>Complete records and observation sets\<close>

text \<open>
  A record is complete when neither attribute is missing. The notebook has no step that
  removes incomplete records; the definitions of this section name what the counts are
  compared with.
\<close>

definition is_complete :: "row \<Rightarrow> bool" where
  "is_complete r = (NativeEnt r \<noteq> NA \<and> NonRefoldable r \<noteq> NA)"

definition dropped_record_count :: "dataframe \<Rightarrow> int" where
  "dropped_record_count data1 = len (filter (\<lambda>r. \<not> is_complete r) data1)"

text \<open>
  An entry has a truth value when it is a boolean or one of the numbers 0 and 1; a
  record has truth values when both of its attributes have.
\<close>

fun has_truth_value :: "entry \<Rightarrow> bool" where
  "has_truth_value (B x) = True"
| "has_truth_value (IntV n) = (n = 0 \<or> n = 1)"
| "has_truth_value (FloatV q) = (q = 0 \<or> q = 1)"
| "has_truth_value (StrV s) = False"
| "has_truth_value NA = False"

definition has_truth_values :: "row \<Rightarrow> bool" where
  "has_truth_values r = (has_truth_value (NativeEnt r) \<and> has_truth_value (NonRefoldable r))"

text \<open>
  An observation set is a data frame whose two attributes are boolean columns: every
  entry has a truth value or is missing.
\<close>

definition boolean_or_missing :: "entry \<Rightarrow> bool" where
  "boolean_or_missing v = (has_truth_value v \<or> v = NA)"

definition observation_set :: "dataframe \<Rightarrow> bool" where
  "observation_set data1 =
     list_all (\<lambda>r. boolean_or_missing (NativeEnt r) \<and> boolean_or_missing (NonRefoldable r))
       data1"

section \<open>Step 3, continued: the odds ratio\<close>

text \<open>
  A Python float is infinite, not a number, or finite; a finite value is taken as the
  exact rational it stands for, so rounding of the quotient is not modelled.
\<close>

datatype float64 = Finite rat | PosInf | NaN

datatype py_error = ValueError

text \<open>
  Modelled from the spec: the odds ratio calculator of section 4.2. The notebook takes
  the odds ratio as the first component of \<^verbatim>\<open>fisher_exact(contingency_table,
  alternative = "two-sided")\<close>, a function imported from \<^verbatim>\<open>scipy.stats\<close>
  whose source is not among the repository's files. The definition gives the value
  \<^verbatim>\<open>(a * d) / (b * c)\<close> of section 4.2 when \<^verbatim>\<open>b > 0\<close> and \<^verbatim>\<open>c > 0\<close>, and the
  infinite value when \<^verbatim>\<open>b\<close> or \<^verbatim>\<open>c\<close> is zero, as that section states. Where a row
  or a column of the table sums to zero it follows the documented behaviour of the
  library function, which returns NaN and raises nothing; the only error of the
  library function is a \<^verbatim>\<open>ValueError\<close> for a negative entry. The table is read
  as a matrix of integers; the products are taken in unbounded integers.
\<close>

definition fisher_exact_odds_ratio :: "contingency \<Rightarrow> py_error + float64" where
  "fisher_exact_odds_ratio t =
     (case asarray t of ((c00, c01), (c10, c11)) \<Rightarrow>
        if c00 < 0 \<or> c01 < 0 \<or> c10 < 0 \<or> c11 < 0 then Inl ValueError
        else if c00 + c10 = 0 \<or> c01 + c11 = 0 \<or> c00 + c01 = 0 \<or> c10 + c11 = 0
          then Inr NaN
        else if c10 > 0 \<and> c01 > 0
          then Inr (Finite (of_int (c00 * c11) / of_int (c10 * c01)))
        else Inr PosInf)"

text \<open>\<^verbatim>\<open>odds_ratio\<close> of the notebook, from the data frame.\<close>

definition odds_ratio :: "dataframe \<Rightarrow> py_error + float64" where
  "odds_ratio data1 = fisher_exact_odds_ratio (contingency_table data1)"

section \<open>Step 3, continued: the p-value\<close>

text \<open>
  Modelled from the spec: the exact association test of section 4.3. The notebook takes
  the p-value as the second component of the same call of \<^verbatim>\<open>fisher_exact\<close>, whose
  source is not among the repository's files. The definitions follow the words of
  section 4.3 in exact rational arithmetic: the hypergeometric probability of a table
  of counts under its margins, the enumeration of all tables with the margins of the
  observed one (by their first cell, from the least to the greatest value the margins
  allow), and the sum of the probabilities that do not exceed the probability of the
  observed table. The library computes the value in doubles; rounding and underflow
  are not modelled.
\<close>

type_synonym counts = "nat \<times> nat \<times> nat \<times> nat"

fun table_probability :: "counts \<Rightarrow> rat" where
  "table_probability (a, b, c, d) =
     of_nat (((a + b) choose a) * ((c + d) choose c)) / of_nat ((a + b + c + d) choose (a + c))"

fun same_margin_tables :: "counts \<Rightarrow> counts list" where
  "same_margin_tables (a, b, c, d) =
     map (\<lambda>x. (x, a + b - x, a + c - x, d + x - a)) [a - d ..< Suc (min (a + b) (a + c))]"

definition two_sided_p_value :: "counts \<Rightarrow> rat" where
  "two_sided_p_value t =
     sum_list (map table_probability
       (filter (\<lambda>u. table_probability u \<le> table_probability t) (same_margin_tables t)))"

text \<open>
  The p-value of a table as the notebook passes it; a negative entry is the library's
  \<^verbatim>\<open>ValueError\<close>, as for the odds ratio.
\<close>

definition fisher_exact_p_value :: "contingency \<Rightarrow> py_error + rat" where
  "fisher_exact_p_value t =
     (case asarray t of ((c00, c01), (c10, c11)) \<Rightarrow>
        if c00 < 0 \<or> c01 < 0 \<or> c10 < 0 \<or> c11 < 0 then Inl ValueError
        else Inr (two_sided_p_value (nat c00, nat c01, nat c10, nat c11)))"

text \<open>Swapping the rows and the columns of a table of counts.\<close>

fun swap_table :: "counts \<Rightarrow> counts" where
  "swap_table (a, b, c, d) = (d, c, b, a)"

section \<open>The counts as filters\<close>

lemma select_rows_filter:
  "select_rows df (series_and (series_eq (map f df) x) (series_eq (map g df) y)) =
     filter (\<lambda>r. eq_bool (f r) x \<and> eq_bool (g r) y) df"
  by (induction df) (simp_all add: select_rows_def series_and_def series_eq_def)

lemma count_where_filter:
  "count_where data1 x y =
     int (length (filter (\<lambda>r. eq_bool (NativeEnt r) x \<and> eq_bool (NonRefoldable r) y) data1))"
  by (simp add: count_where_def cell_mask_def len_def select_rows_filter)

lemma eq_bool_True: "eq_bool v True = (v \<in> {B True, IntV 1, FloatV 1})"
  by (cases v) auto

lemma eq_bool_False: "eq_bool v False = (v \<in> {B False, IntV 0, FloatV 0})"
  by (cases v) auto

lemma eq_bool_truth_value: "(eq_bool v True \<or> eq_bool v False) = has_truth_value v"
  by (cases v) auto

lemma eq_bool_exclusive: "\<not> (eq_bool v True \<and> eq_bool v False)"
  by (cases v) auto

lemma count_where_append:
  "count_where (xs @ ys) x y = count_where xs x y + count_where ys x y"
  by (simp add: count_where_filter)

lemma count_where_Cons:
  "count_where (r # xs) x y =
     (if eq_bool (NativeEnt r) x \<and> eq_bool (NonRefoldable r) y then 1 else 0)
       + count_where xs x y"
  by (simp add: count_where_filter)

lemma count_where_Nil: "count_where [] x y = 0"
  by (simp add: count_where_filter)

lemma count_where_nonneg: "0 \<le> count_where data1 x y"
  by (simp add: count_where_filter)

lemmas cell_defs = cell_a_def cell_b_def cell_c_def cell_d_def

lemma asarray_make_table: "asarray (make_table a b c d) = ((a, b), (c, d))"
  by (simp add: asarray_def make_table_def)

lemma cell_mask_nth:
  "i < length data1 \<Longrightarrow>
     cell_mask data1 x y ! i =
       (eq_bool (NativeEnt (data1 ! i)) x \<and> eq_bool (NonRefoldable (data1 ! i)) y)"
  by (simp add: cell_mask_def series_and_def series_eq_def)

lemma one_cell_per_record:
  "(if eq_bool (NativeEnt r) True \<and> eq_bool (NonRefoldable r) True then 1 else 0)
     + (if eq_bool (NativeEnt r) True \<and> eq_bool (NonRefoldable r) False then 1 else 0)
     + (if eq_bool (NativeEnt r) False \<and> eq_bool (NonRefoldable r) True then 1 else 0)
     + (if eq_bool (NativeEnt r) False \<and> eq_bool (NonRefoldable r) False then 1 else 0)
   = (if has_truth_values r then 1 else (0::int))"
  using eq_bool_truth_value [of "NativeEnt r"] eq_bool_truth_value [of "NonRefoldable r"]
        eq_bool_exclusive [of "NativeEnt r"] eq_bool_exclusive [of "NonRefoldable r"]
  by (auto simp: has_truth_values_def)

lemma cells_Cons:
  "cell_a (r # rs) + cell_b (r # rs) + cell_c (r # rs) + cell_d (r # rs) =
     (if has_truth_values r then 1 else 0)
       + (cell_a rs + cell_b rs + cell_c rs + cell_d rs)"
  unfolding cell_defs count_where_Cons using one_cell_per_record [of r] by linarith

lemma cells_sum:
  "cell_a data1 + cell_b data1 + cell_c data1 + cell_d data1 =
     int (length (filter has_truth_values data1))"
proof (induction data1)
  case Nil
  show ?case by (simp add: cell_defs count_where_Nil)
next
  case (Cons r rs)
  then show ?case by (simp add: cells_Cons)
qed

lemma truth_values_complete: "has_truth_values r \<Longrightarrow> is_complete r"
  by (cases "NativeEnt r"; cases "NonRefoldable r")
     (simp_all add: has_truth_values_def is_complete_def)

lemma observation_set_filter:
  "observation_set data1 \<Longrightarrow> filter has_truth_values data1 = filter is_complete data1"
proof (induction data1)
  case Nil
  show ?case by simp
next
  case (Cons r rs)
  then have "boolean_or_missing (NativeEnt r)" "boolean_or_missing (NonRefoldable r)"
    and rest: "observation_set rs"
    by (simp_all add: observation_set_def)
  then have "has_truth_values r = is_complete r"
    by (auto simp: boolean_or_missing_def has_truth_values_def is_complete_def)
  with Cons.IH rest show ?case by simp
qed

lemma count_where_complete:
  "count_where (filter is_complete data1) x y = count_where data1 x y"
proof -
  have "eq_bool v x \<Longrightarrow> v \<noteq> NA" for v
    by (cases v) auto
  then have "filter (\<lambda>r. eq_bool (NativeEnt r) x \<and> eq_bool (NonRefoldable r) y)
          (filter is_complete data1)
      = filter (\<lambda>r. eq_bool (NativeEnt r) x \<and> eq_bool (NonRefoldable r) y) data1"
    by (induction data1) (auto simp: is_complete_def)
  then show ?thesis by (simp add: count_where_filter)
qed

lemma contingency_table_complete:
  "contingency_table (filter is_complete data1) = contingency_table data1"
  by (simp add: contingency_table_def cell_defs count_where_complete)

lemma contingency_table_Nil: "contingency_table [] = make_table 0 0 0 0"
  by (simp add: contingency_table_def cell_defs count_where_Nil)

text \<open>
  C3. For every data frame, \<^verbatim>\<open>a\<close> is the number of records whose two attributes
  both equal \<^verbatim>\<open>True\<close>, \<^verbatim>\<open>b\<close> the number with the feature equal to \<^verbatim>\<open>True\<close> and
  the outcome equal to \<^verbatim>\<open>False\<close>, \<^verbatim>\<open>c\<close> the number with the feature equal to
  \<^verbatim>\<open>False\<close> and the outcome equal to \<^verbatim>\<open>True\<close>, \<^verbatim>\<open>d\<close> the number with both equal
  to \<^verbatim>\<open>False\<close>; the table read as a matrix has the rows \<^verbatim>\<open>[a, b]\<close> and
  \<^verbatim>\<open>[c, d]\<close>. The values equal to \<^verbatim>\<open>True\<close> are the boolean and the number 1, those
  equal to \<^verbatim>\<open>False\<close> the boolean and the number 0; on a column of booleans the
  comparison is equality of booleans.
\<close>

theorem cells_partition_by_boolean_equality:
  "cell_a data1 = int (length (filter
       (\<lambda>r. NativeEnt r \<in> {B True, IntV 1, FloatV 1}
            \<and> NonRefoldable r \<in> {B True, IntV 1, FloatV 1}) data1))
   \<and> cell_b data1 = int (length (filter
       (\<lambda>r. NativeEnt r \<in> {B True, IntV 1, FloatV 1}
            \<and> NonRefoldable r \<in> {B False, IntV 0, FloatV 0}) data1))
   \<and> cell_c data1 = int (length (filter
       (\<lambda>r. NativeEnt r \<in> {B False, IntV 0, FloatV 0}
            \<and> NonRefoldable r \<in> {B True, IntV 1, FloatV 1}) data1))
   \<and> cell_d data1 = int (length (filter
       (\<lambda>r. NativeEnt r \<in> {B False, IntV 0, FloatV 0}
            \<and> NonRefoldable r \<in> {B False, IntV 0, FloatV 0}) data1))
   \<and> asarray (contingency_table data1) =
       ((cell_a data1, cell_b data1), (cell_c data1, cell_d data1))"
  by (simp add: cell_defs count_where_filter eq_bool_True eq_bool_False
        contingency_table_def asarray_make_table)

text \<open>
  C4. For every observation set, \<^verbatim>\<open>a + b + c + d\<close> is the number of complete records
  (those with neither attribute missing), whether the counts are taken on the data
  frame as it is or on its complete records alone. For every data frame, the sum is
  the number of records with truth values in both attributes, and each of the four
  counts is non-negative.
\<close>

theorem cells_sum_to_complete_records:
  "(observation_set data1 \<longrightarrow>
      cell_a data1 + cell_b data1 + cell_c data1 + cell_d data1
        = int (length (filter is_complete data1))
      \<and> cell_a (filter is_complete data1) + cell_b (filter is_complete data1)
          + cell_c (filter is_complete data1) + cell_d (filter is_complete data1)
        = int (length (filter is_complete data1)))
   \<and> cell_a data1 + cell_b data1 + cell_c data1 + cell_d data1
        = int (length (filter has_truth_values data1))
   \<and> 0 \<le> cell_a data1 \<and> 0 \<le> cell_b data1 \<and> 0 \<le> cell_c data1 \<and> 0 \<le> cell_d data1"
proof -
  have total: "cell_a data1 + cell_b data1 + cell_c data1 + cell_d data1
                 = int (length (filter has_truth_values data1))"
    by (rule cells_sum)
  have same: "cell_a (filter is_complete data1) + cell_b (filter is_complete data1)
          + cell_c (filter is_complete data1) + cell_d (filter is_complete data1)
        = cell_a data1 + cell_b data1 + cell_c data1 + cell_d data1"
    by (simp add: cell_defs count_where_complete)
  have complete: "cell_a data1 + cell_b data1 + cell_c data1 + cell_d data1
                 = int (length (filter is_complete data1))" if "observation_set data1"
    using that total by (simp add: observation_set_filter)
  have "0 \<le> cell_a data1" "0 \<le> cell_b data1" "0 \<le> cell_c data1" "0 \<le> cell_d data1"
    by (simp_all add: cell_defs count_where_nonneg)
  with total same complete show ?thesis by simp
qed

theorem cells_sum_to_complete_records_witness:
  "observation_set
     [\<lparr>buff = ''C'', gene = ''g1'', NativeEnt = NA, NonRefoldable = B True\<rparr>,
      \<lparr>buff = ''C'', gene = ''g2'', NativeEnt = B True, NonRefoldable = B False\<rparr>,
      \<lparr>buff = ''C'', gene = ''g3'', NativeEnt = B False, NonRefoldable = B False\<rparr>]
   \<and> cell_a
     [\<lparr>buff = ''C'', gene = ''g1'', NativeEnt = NA, NonRefoldable = B True\<rparr>,
      \<lparr>buff = ''C'', gene = ''g2'', NativeEnt = B True, NonRefoldable = B False\<rparr>,
      \<lparr>buff = ''C'', gene = ''g3'', NativeEnt = B False, NonRefoldable = B False\<rparr>]
   + cell_b
     [\<lparr>buff = ''C'', gene = ''g1'', NativeEnt = NA, NonRefoldable = B True\<rparr>,
      \<lparr>buff = ''C'', gene = ''g2'', NativeEnt = B True, NonRefoldable = B False\<rparr>,
      \<lparr>buff = ''C'', gene = ''g3'', NativeEnt = B False, NonRefoldable = B False\<rparr>]
   + cell_c
     [\<lparr>buff = ''C'', gene = ''g1'', NativeEnt = NA, NonRefoldable = B True\<rparr>,
      \<lparr>buff = ''C'', gene = ''g2'', NativeEnt = B True, NonRefoldable = B False\<rparr>,
      \<lparr>buff = ''C'', gene = ''g3'', NativeEnt = B False, NonRefoldable = B False\<rparr>]
   + cell_d
     [\<lparr>buff = ''C'', gene = ''g1'', NativeEnt = NA, NonRefoldable = B True\<rparr>,
      \<lparr>buff = ''C'', gene = ''g2'', NativeEnt = B True, NonRefoldable = B False\<rparr>,
      \<lparr>buff = ''C'', gene = ''g3'', NativeEnt = B False, NonRefoldable = B False\<rparr>]
   = 2"
  using cells_sum_to_complete_records
          [of "[\<lparr>buff = ''C'', gene = ''g1'', NativeEnt = NA, NonRefoldable = B True\<rparr>,
      \<lparr>buff = ''C'', gene = ''g2'', NativeEnt = B True, NonRefoldable = B False\<rparr>,
      \<lparr>buff = ''C'', gene = ''g3'', NativeEnt = B False, NonRefoldable = B False\<rparr>]"]
  by (simp add: observation_set_def boolean_or_missing_def is_complete_def)

text \<open>
  C10, as the claim states it, fails: in a data frame coded in the numbers 0 and 1 no
  value is a boolean, and yet every record is counted in a cell.
\<close>

theorem numeric_records_are_counted:
  "contingency_table
     [\<lparr>buff = ''C'', gene = ''g1'', NativeEnt = IntV 1, NonRefoldable = IntV 1\<rparr>,
      \<lparr>buff = ''C'', gene = ''g2'', NativeEnt = IntV 0, NonRefoldable = IntV 1\<rparr>,
      \<lparr>buff = ''C'', gene = ''g3'', NativeEnt = IntV 0, NonRefoldable = IntV 0\<rparr>]
     = make_table 1 0 1 1"
  by (simp add: contingency_table_def cell_defs count_where_Cons count_where_Nil)

text \<open>
  C10, amended. At every position of the data frame, the number of cell predicates that
  hold is one when both attributes of the record there have a truth value (a boolean,
  or a number 0 or 1, which \<^verbatim>\<open>==\<close> holds equal to \<^verbatim>\<open>False\<close> and \<^verbatim>\<open>True\<close>), and
  zero otherwise (NaN, text, any other number): the four predicates are pairwise
  disjoint and cover exactly the records with truth values. Accordingly, putting a
  record \<^verbatim>\<open>r\<close> into a data frame raises each count by zero or one, and the four
  counts together by one when \<^verbatim>\<open>r\<close> has truth values and by nothing otherwise.
\<close>

theorem cell_masks_disjoint_and_cover:
  "(i < length data1 \<longrightarrow>
      length (filter id [cell_mask data1 True True ! i, cell_mask data1 True False ! i,
                         cell_mask data1 False True ! i, cell_mask data1 False False ! i])
        = (if has_truth_values (data1 ! i) then 1 else 0))
   \<and> cell_a (xs @ r # ys) - cell_a (xs @ ys) \<in> {0, 1}
   \<and> cell_b (xs @ r # ys) - cell_b (xs @ ys) \<in> {0, 1}
   \<and> cell_c (xs @ r # ys) - cell_c (xs @ ys) \<in> {0, 1}
   \<and> cell_d (xs @ r # ys) - cell_d (xs @ ys) \<in> {0, 1}
   \<and> (cell_a (xs @ r # ys) - cell_a (xs @ ys)) + (cell_b (xs @ r # ys) - cell_b (xs @ ys))
       + (cell_c (xs @ r # ys) - cell_c (xs @ ys)) + (cell_d (xs @ r # ys) - cell_d (xs @ ys))
     = (if has_truth_values r then 1 else 0)"
proof -
  have masks: "length (filter id [cell_mask data1 True True ! i, cell_mask data1 True False ! i,
                         cell_mask data1 False True ! i, cell_mask data1 False False ! i])
        = (if has_truth_values (data1 ! i) then 1 else 0)" if "i < length data1"
    using that eq_bool_truth_value [of "NativeEnt (data1 ! i)"]
      eq_bool_truth_value [of "NonRefoldable (data1 ! i)"]
      eq_bool_exclusive [of "NativeEnt (data1 ! i)"]
      eq_bool_exclusive [of "NonRefoldable (data1 ! i)"]
    by (auto simp: cell_mask_nth has_truth_values_def)
  have delta: "count_where (xs @ r # ys) x y - count_where (xs @ ys) x y =
                 (if eq_bool (NativeEnt r) x \<and> eq_bool (NonRefoldable r) y then 1 else 0)"
    for x y
    by (simp add: count_where_append count_where_Cons)
  have total: "(cell_a (xs @ r # ys) - cell_a (xs @ ys)) + (cell_b (xs @ r # ys) - cell_b (xs @ ys))
       + (cell_c (xs @ r # ys) - cell_c (xs @ ys)) + (cell_d (xs @ r # ys) - cell_d (xs @ ys))
     = (if has_truth_values r then 1 else 0)"
    unfolding cell_defs delta by (rule one_cell_per_record)
  have each: "count_where (xs @ r # ys) x y - count_where (xs @ ys) x y \<in> {0, 1}" for x y
    by (simp add: delta)
  show ?thesis
    using masks total each by (simp add: cell_defs)
qed

theorem cell_masks_disjoint_and_cover_witness:
  "length (filter id
      [cell_mask [\<lparr>buff = ''C'', gene = ''g1'', NativeEnt = NA, NonRefoldable = B True\<rparr>,
                  \<lparr>buff = ''C'', gene = ''g2'', NativeEnt = B True, NonRefoldable = B False\<rparr>]
         True True ! 1,
       cell_mask [\<lparr>buff = ''C'', gene = ''g1'', NativeEnt = NA, NonRefoldable = B True\<rparr>,
                  \<lparr>buff = ''C'', gene = ''g2'', NativeEnt = B True, NonRefoldable = B False\<rparr>]
         True False ! 1,
       cell_mask [\<lparr>buff = ''C'', gene = ''g1'', NativeEnt = NA, NonRefoldable = B True\<rparr>,
                  \<lparr>buff = ''C'', gene = ''g2'', NativeEnt = B True, NonRefoldable = B False\<rparr>]
         False True ! 1,
       cell_mask [\<lparr>buff = ''C'', gene = ''g1'', NativeEnt = NA, NonRefoldable = B True\<rparr>,
                  \<lparr>buff = ''C'', gene = ''g2'', NativeEnt = B True, NonRefoldable = B False\<rparr>]
         False False ! 1]) = 1
   \<and> length (filter id
      [cell_mask [\<lparr>buff = ''C'', gene = ''g1'', NativeEnt = NA, NonRefoldable = B True\<rparr>,
                  \<lparr>buff = ''C'', gene = ''g2'', NativeEnt = B True, NonRefoldable = B False\<rparr>]
         True True ! 0,
       cell_mask [\<lparr>buff = ''C'', gene = ''g1'', NativeEnt = NA, NonRefoldable = B True\<rparr>,
                  \<lparr>buff = ''C'', gene = ''g2'', NativeEnt = B True, NonRefoldable = B False\<rparr>]
         True False ! 0,
       cell_mask [\<lparr>buff = ''C'', gene = ''g1'', NativeEnt = NA, NonRefoldable = B True\<rparr>,
                  \<lparr>buff = ''C'', gene = ''g2'', NativeEnt = B True, NonRefoldable = B False\<rparr>]
         False True ! 0,
       cell_mask [\<lparr>buff = ''C'', gene = ''g1'', NativeEnt = NA, NonRefoldable = B True\<rparr>,
                  \<lparr>buff = ''C'', gene = ''g2'', NativeEnt = B True, NonRefoldable = B False\<rparr>]
         False False ! 0]) = 0"
  using cell_masks_disjoint_and_cover
          [of 1 "[\<lparr>buff = ''C'', gene = ''g1'', NativeEnt = NA, NonRefoldable = B True\<rparr>,
                  \<lparr>buff = ''C'', gene = ''g2'', NativeEnt = B True, NonRefoldable = B False\<rparr>]"]
        cell_masks_disjoint_and_cover
          [of 0 "[\<lparr>buff = ''C'', gene = ''g1'', NativeEnt = NA, NonRefoldable = B True\<rparr>,
                  \<lparr>buff = ''C'', gene = ''g2'', NativeEnt = B True, NonRefoldable = B False\<rparr>]"]
  by (simp add: has_truth_values_def)

text \<open>
  C7, as the claim states it, fails: the table builder has no failure path, and for
  the empty data frame it returns the table of four zeros.
\<close>

theorem builder_returns_on_empty_set:
  "contingency_table [] = make_table 0 0 0 0
   \<and> asarray (contingency_table []) = ((0, 0), (0, 0))"
  by (simp add: contingency_table_Nil asarray_make_table)

text \<open>
  C7, amended. For every data frame with no complete record (empty, or holding only
  records with a missing attribute), the table builder raises nothing and returns the
  table whose four cells are zero.
\<close>

theorem builder_zero_table_without_complete_records:
  "filter is_complete data1 = [] \<Longrightarrow>
     contingency_table data1 = make_table 0 0 0 0
     \<and> asarray (contingency_table data1) = ((0, 0), (0, 0))"
proof -
  assume "filter is_complete data1 = []"
  then have "contingency_table data1 = make_table 0 0 0 0"
    using contingency_table_complete [of data1] by (simp add: contingency_table_Nil)
  then show ?thesis by (simp add: asarray_make_table)
qed

theorem builder_zero_table_without_complete_records_witness:
  "filter is_complete
     [\<lparr>buff = ''C'', gene = ''g1'', NativeEnt = NA, NonRefoldable = B True\<rparr>] = []
   \<and> contingency_table
       [\<lparr>buff = ''C'', gene = ''g1'', NativeEnt = NA, NonRefoldable = B True\<rparr>]
     = make_table 0 0 0 0"
  using builder_zero_table_without_complete_records
          [of "[\<lparr>buff = ''C'', gene = ''g1'', NativeEnt = NA, NonRefoldable = B True\<rparr>]"]
  by (simp add: is_complete_def)

text \<open>
  C9, as the claim states it, fails: the builder reports the four cells and nothing
  else. A data frame with one incomplete record and the empty data frame give the same
  table, though one record is excluded in the first and none in the second, so the
  number of excluded records cannot be read off what the builder returns.
\<close>

theorem dropped_count_not_reported:
  "contingency_table
       [\<lparr>buff = ''C'', gene = ''g1'', NativeEnt = NA, NonRefoldable = B True\<rparr>]
     = contingency_table []
   \<and> dropped_record_count
       [\<lparr>buff = ''C'', gene = ''g1'', NativeEnt = NA, NonRefoldable = B True\<rparr>] = 1
   \<and> dropped_record_count [] = 0"
  by (simp add: contingency_table_def cell_defs count_where_Cons count_where_Nil
        dropped_record_count_def len_def is_complete_def)

text \<open>
  C9, amended. For every data frame, the records with a missing attribute are in none
  of the four cells: the table is the table of the complete records alone, so a missing
  value is never counted as \<^verbatim>\<open>False\<close>. The builder reports the four cells only;
  on an observation set the number of excluded records is the number of records less
  \<^verbatim>\<open>a + b + c + d\<close>.
\<close>

theorem incomplete_records_in_no_cell:
  "contingency_table data1 = contingency_table (filter is_complete data1)
   \<and> (observation_set data1 \<longrightarrow>
        dropped_record_count data1 =
          len data1 - (cell_a data1 + cell_b data1 + cell_c data1 + cell_d data1))"
proof -
  have "length (filter (\<lambda>r. \<not> is_complete r) data1) + length (filter is_complete data1)
          = length data1"
    using sum_length_filter_compl [of is_complete data1] by simp
  then have "dropped_record_count data1 = len data1 - int (length (filter is_complete data1))"
    by (simp add: dropped_record_count_def len_def)
  then have "dropped_record_count data1 =
          len data1 - (cell_a data1 + cell_b data1 + cell_c data1 + cell_d data1)"
    if "observation_set data1"
    using that by (simp add: cells_sum observation_set_filter)
  then show ?thesis
    by (simp add: contingency_table_complete)
qed

theorem incomplete_records_in_no_cell_witness:
  "observation_set
     [\<lparr>buff = ''C'', gene = ''g1'', NativeEnt = NA, NonRefoldable = B True\<rparr>,
      \<lparr>buff = ''C'', gene = ''g2'', NativeEnt = B True, NonRefoldable = B False\<rparr>]
   \<and> contingency_table
     [\<lparr>buff = ''C'', gene = ''g1'', NativeEnt = NA, NonRefoldable = B True\<rparr>,
      \<lparr>buff = ''C'', gene = ''g2'', NativeEnt = B True, NonRefoldable = B False\<rparr>]
     = make_table 0 1 0 0
   \<and> dropped_record_count
     [\<lparr>buff = ''C'', gene = ''g1'', NativeEnt = NA, NonRefoldable = B True\<rparr>,
      \<lparr>buff = ''C'', gene = ''g2'', NativeEnt = B True, NonRefoldable = B False\<rparr>]
     = 1"
  using incomplete_records_in_no_cell
          [of "[\<lparr>buff = ''C'', gene = ''g1'', NativeEnt = NA, NonRefoldable = B True\<rparr>,
      \<lparr>buff = ''C'', gene = ''g2'', NativeEnt = B True, NonRefoldable = B False\<rparr>]"]
  by (simp add: observation_set_def boolean_or_missing_def is_complete_def
        contingency_table_def cell_defs count_where_Cons count_where_Nil len_def)

text \<open>
  C2. For every table of non-negative counts with \<^verbatim>\<open>b > 0\<close> and \<^verbatim>\<open>c > 0\<close> the odds
  ratio is the finite value \<^verbatim>\<open>(a * d) / (b * c)\<close>; for the table
  \<^verbatim>\<open>{a = 30, b = 18, c = 16, d = 65}\<close> it is 1950/288.
\<close>

theorem odds_ratio_is_cross_product_ratio:
  "0 \<le> a \<Longrightarrow> 0 \<le> d \<Longrightarrow> 0 < b \<Longrightarrow> 0 < c \<Longrightarrow>
     fisher_exact_odds_ratio (make_table a b c d)
       = Inr (Finite (of_int (a * d) / of_int (b * c)))"
  by (simp add: fisher_exact_odds_ratio_def asarray_make_table)

theorem odds_ratio_is_cross_product_ratio_witness:
  "fisher_exact_odds_ratio (make_table 30 18 16 65) = Inr (Finite (1950 / 288))"
  using odds_ratio_is_cross_product_ratio [of 30 65 18 16] by simp

text \<open>
  C6. For every table of non-negative counts with \<^verbatim>\<open>a > 0\<close>, \<^verbatim>\<open>d > 0\<close> and
  \<^verbatim>\<open>b = 0\<close> or \<^verbatim>\<open>c = 0\<close>, the odds ratio is returned, not raised, and is the
  infinite value, which is neither NaN nor any finite value.
\<close>

theorem odds_ratio_infinite_sentinel:
  "0 < a \<Longrightarrow> 0 < d \<Longrightarrow> 0 \<le> b \<Longrightarrow> 0 \<le> c \<Longrightarrow> b = 0 \<or> c = 0 \<Longrightarrow>
     fisher_exact_odds_ratio (make_table a b c d) = Inr PosInf
     \<and> PosInf \<noteq> NaN \<and> (\<forall>q. PosInf \<noteq> Finite q)"
  by (auto simp add: fisher_exact_odds_ratio_def asarray_make_table)

theorem odds_ratio_infinite_sentinel_witness:
  "fisher_exact_odds_ratio (make_table 10 0 5 10) = Inr PosInf"
  using odds_ratio_infinite_sentinel [of 10 10 0 5] by simp

text \<open>
  C5, as the claim states it, fails: with no entangled protein in the data
  (\<^verbatim>\<open>a = 0\<close>, \<^verbatim>\<open>b = 0\<close>) the analysis returns, and the odds ratio is NaN.
\<close>

theorem zero_margin_returns_nan:
  "contingency_table
     [\<lparr>buff = ''C'', gene = ''g1'', NativeEnt = B False, NonRefoldable = B True\<rparr>,
      \<lparr>buff = ''C'', gene = ''g2'', NativeEnt = B False, NonRefoldable = B False\<rparr>]
     = make_table 0 0 1 1
   \<and> odds_ratio
     [\<lparr>buff = ''C'', gene = ''g1'', NativeEnt = B False, NonRefoldable = B True\<rparr>,
      \<lparr>buff = ''C'', gene = ''g2'', NativeEnt = B False, NonRefoldable = B False\<rparr>]
     = Inr NaN"
  by (simp add: odds_ratio_def contingency_table_def cell_defs count_where_Cons
        count_where_Nil fisher_exact_odds_ratio_def asarray_make_table)

text \<open>
  C5, amended. For every table of non-negative counts in which one full margin is zero
  (\<^verbatim>\<open>a * d\<close> and \<^verbatim>\<open>b * c\<close> are both zero), the analysis raises no error: the odds
  ratio is returned as NaN, and the four cells are exposed by the table as they were
  computed.
\<close>

theorem odds_ratio_nan_on_zero_margin:
  "0 \<le> a \<Longrightarrow> 0 \<le> b \<Longrightarrow> 0 \<le> c \<Longrightarrow> 0 \<le> d \<Longrightarrow> a * d = 0 \<Longrightarrow> b * c = 0 \<Longrightarrow>
     fisher_exact_odds_ratio (make_table a b c d) = Inr NaN
     \<and> asarray (make_table a b c d) = ((a, b), (c, d))"
  by (auto simp add: fisher_exact_odds_ratio_def asarray_make_table)

theorem odds_ratio_nan_on_zero_margin_witness:
  "fisher_exact_odds_ratio (make_table 0 0 5 10) = Inr NaN
   \<and> asarray (make_table 0 0 5 10) = ((0, 0), (5, 10))"
  using odds_ratio_nan_on_zero_margin [of 0 0 5 10] by simp

section \<open>The p-value: tables with the same margins\<close>

lemma set_same_margin_tables:
  "set (same_margin_tables (a, b, c, d)) =
     {(a', b', c', d'). a' + b' = a + b \<and> c' + d' = c + d \<and> a' + c' = a + c \<and> b' + d' = b + d}"
  by (auto simp: image_iff)

lemma distinct_same_margin_tables: "distinct (same_margin_tables t)"
  by (cases t) (auto simp: distinct_map inj_on_def)




lemma table_probability_swap: "table_probability (swap_table t) = table_probability t"
proof (cases t)
  case (fields a b c d)
  have 1: "(d + c) choose d = (c + d) choose c"
    using binomial_symmetric [of d "d + c"] by (simp add: add.commute)
  have 2: "(b + a) choose b = (a + b) choose a"
    using binomial_symmetric [of b "b + a"] by (simp add: add.commute)
  have 3: "(d + c + b + a) choose (d + b) = (a + b + c + d) choose (a + c)"
    using binomial_symmetric [of "d + b" "d + c + b + a"] by (simp add: ac_simps)
  show ?thesis unfolding fields by (simp add: 1 2 3 mult.commute)
qed

lemma swap_table_twice: "swap_table (swap_table t) = t"
  by (cases t) simp

lemma same_margins_swap:
  "set (same_margin_tables (swap_table t)) = swap_table ` set (same_margin_tables t)"
proof (cases t)
  case (fields a b c d)
  have "swap_table ` {(a', b', c', d').
            a' + b' = a + b \<and> c' + d' = c + d \<and> a' + c' = a + c \<and> b' + d' = b + d}
      = {(a', b', c', d').
            a' + b' = d + c \<and> c' + d' = b + a \<and> a' + c' = d + b \<and> b' + d' = c + a}"
  proof (intro set_eqI iffI)
    fix u assume "u \<in> swap_table ` {(a', b', c', d').
            a' + b' = a + b \<and> c' + d' = c + d \<and> a' + c' = a + c \<and> b' + d' = b + d}"
    then show "u \<in> {(a', b', c', d').
            a' + b' = d + c \<and> c' + d' = b + a \<and> a' + c' = d + b \<and> b' + d' = c + a}"
      by auto
  next
    fix u assume u: "u \<in> {(a', b', c', d').
            a' + b' = d + c \<and> c' + d' = b + a \<and> a' + c' = d + b \<and> b' + d' = c + a}"
    obtain a' b' c' d' where [simp]: "u = (a', b', c', d')" by (cases u)
    have "u = swap_table (d', c', b', a')" by simp
    moreover have "(d', c', b', a') \<in> {(a', b', c', d').
            a' + b' = a + b \<and> c' + d' = c + d \<and> a' + c' = a + c \<and> b' + d' = b + d}"
      using u by auto
    ultimately show "u \<in> swap_table ` {(a', b', c', d').
            a' + b' = a + b \<and> c' + d' = c + d \<and> a' + c' = a + c \<and> b' + d' = b + d}"
      by blast
  qed
  then show ?thesis
    unfolding fields swap_table.simps set_same_margin_tables by simp
qed

section \<open>The p-value as a sum over a set of tables\<close>

lemma p_value_as_sum:
  "two_sided_p_value t =
     sum table_probability
       {u \<in> set (same_margin_tables t). table_probability u \<le> table_probability t}"
proof -
  have "distinct (filter (\<lambda>u. table_probability u \<le> table_probability t)
          (same_margin_tables t))"
    by (simp add: distinct_same_margin_tables)
  then show ?thesis
    unfolding two_sided_p_value_def
    by (simp add: sum_list_distinct_conv_sum_set)
qed

lemma two_sided_p_value_swap: "two_sided_p_value (swap_table t) = two_sided_p_value t"
proof -
  have "sum table_probability
          {u \<in> set (same_margin_tables (swap_table t)).
             table_probability u \<le> table_probability (swap_table t)}
      = sum table_probability
          {u \<in> set (same_margin_tables t). table_probability u \<le> table_probability t}"
  proof (rule sum.reindex_bij_witness [where i = swap_table and j = swap_table])
    fix u
    assume "u \<in> {u \<in> set (same_margin_tables t).
                   table_probability u \<le> table_probability t}"
    then show "swap_table u \<in> {u \<in> set (same_margin_tables (swap_table t)).
                   table_probability u \<le> table_probability (swap_table t)}"
      by (simp add: same_margins_swap table_probability_swap)
  next
    fix u
    assume "u \<in> {u \<in> set (same_margin_tables (swap_table t)).
                   table_probability u \<le> table_probability (swap_table t)}"
    then have "u \<in> swap_table ` set (same_margin_tables t)"
      and "table_probability u \<le> table_probability t"
      by (simp_all add: same_margins_swap table_probability_swap)
    then show "swap_table u \<in> {u \<in> set (same_margin_tables t).
                   table_probability u \<le> table_probability t}"
      using table_probability_swap [of u] by (auto simp: swap_table_twice)
  qed (simp_all add: swap_table_twice table_probability_swap)
  then show ?thesis by (simp add: p_value_as_sum)
qed


section \<open>The probabilities of all tables with the same margins sum to one\<close>





lemma fisher_exact_p_value_counts:
  "fisher_exact_p_value (make_table (int a) (int b) (int c) (int d)) =
     Inr (two_sided_p_value (a, b, c, d))"
  by (simp add: fisher_exact_p_value_def asarray_make_table)




text \<open>
  C8. For every table, the two-sided p-value of the table \<^verbatim>\<open>{d, c, b, a}\<close>, with
  the rows and the columns both swapped, is the p-value of \<^verbatim>\<open>{a, b, c, d}\<close>.
\<close>

theorem p_value_row_column_swap:
  "fisher_exact_p_value (make_table d c b a) = fisher_exact_p_value (make_table a b c d)"
proof (cases "a < 0 \<or> b < 0 \<or> c < 0 \<or> d < 0")
  case True
  then show ?thesis by (auto simp: fisher_exact_p_value_def asarray_make_table)
next
  case False
  then have "fisher_exact_p_value (make_table a b c d) =
               Inr (two_sided_p_value (nat a, nat b, nat c, nat d))"
    and "fisher_exact_p_value (make_table d c b a) =
               Inr (two_sided_p_value (swap_table (nat a, nat b, nat c, nat d)))"
    by (simp_all add: fisher_exact_p_value_def asarray_make_table)
  then show ?thesis by (simp only: two_sided_p_value_swap)
qed

lemma same_margin_tables_example:
  "same_margin_tables (2, 0, 1, 2) = [(0, 2, 3, 0), (1, 1, 2, 1), (2, 0, 1, 2)]"
  by (simp add: upt_rec numeral_2_eq_2 numeral_3_eq_3)

lemma binomial_examples:
  "(5::nat) choose 3 = 10" "(3::nat) choose 3 = 1" "(2::nat) choose 0 = 1"
  "(2::nat) choose 1 = 2" "(3::nat) choose 2 = 3" "(2::nat) choose 2 = 1"
  "(3::nat) choose 1 = 3"
  by (simp_all add: eval_nat_numeral)

lemma skewed_p_value: "two_sided_p_value (2, 0, 1, 2) = 2 / 5"
  unfolding two_sided_p_value_def same_margin_tables_example
  by (simp add: binomial_examples)

theorem p_value_row_column_swap_witness:
  "fisher_exact_p_value (make_table 2 0 1 2) = Inr (2 / 5)
   \<and> fisher_exact_p_value (make_table 2 1 0 2) = Inr (2 / 5)"
proof -
  have "fisher_exact_p_value (make_table (int 2) (int 0) (int 1) (int 2)) = Inr (2 / 5)"
    by (simp only: fisher_exact_p_value_counts skewed_p_value)
  then have "fisher_exact_p_value (make_table 2 0 1 2) = Inr (2 / 5)"
    by simp
  with p_value_row_column_swap [of 2 1 0 2] show ?thesis by simp
qed

end
